theory Spec2Isabelle
  imports Complex_Main
begin

section \<open>Rate construction (\<open>LimiterMixin.__init__\<close>, the \<open>rates\<close> comprehension)\<close>

text \<open>
  A \<open>RequestRate(limit, interval)\<close> of the limiter library, over the type of its two
  numbers.
\<close>

record 'n RequestRate =
  limit :: 'n
  interval :: 'n

text \<open>
  The \<open>Duration\<close> constants of the limiter library, in seconds. The library is not part
  of the repository; the values are the ones its integer enumeration carries.
\<close>

definition SECOND :: int where "SECOND = 1"
definition MINUTE :: int where "MINUTE = 60"
definition HOUR :: int where "HOUR = 3600"
definition DAY :: int where "DAY = 3600 * 24"
definition MONTH :: int where "MONTH = 3600 * 24 * 30"

text \<open>
  A Python dictionary keeps insertion order. Storing under a key that is already present
  replaces the value and leaves the key where it was first inserted; a new key goes to
  the end.
\<close>

fun dict_setitem :: "('k \<times> 'v) list \<Rightarrow> 'k \<Rightarrow> 'v \<Rightarrow> ('k \<times> 'v) list" where
  "dict_setitem [] k v = [(k, v)]"
| "dict_setitem ((k', v') # d) k v =
     (if k' = k then (k', v) # d else (k', v') # dict_setitem d k v)"

text \<open>A dictionary display \<open>{k1: v1, k2: v2, ...}\<close> stores its items from left to right.\<close>

definition dict_display :: "('k \<times> 'v) list \<Rightarrow> ('k \<times> 'v) list" where
  "dict_display kvs = foldl (\<lambda>d (k, v). dict_setitem d k v) [] kvs"

text \<open>
  \<^verbatim>\<open>
  rates = [
      RequestRate(limit, interval)
      for interval, limit in {
          Duration.SECOND * burst: per_second * burst,
          Duration.MINUTE: per_minute,
          Duration.HOUR: per_hour,
          Duration.DAY: per_day,
          Duration.MONTH: per_month,
      }.items()
      if limit
  ]
  \<close>
  The test \<open>if limit\<close> on a number is \<open>limit \<noteq> 0\<close>. The six parameters are taken here
  as Python ints, the type of their default values.
\<close>

definition make_rates :: "int \<Rightarrow> int \<Rightarrow> int \<Rightarrow> int \<Rightarrow> int \<Rightarrow> int \<Rightarrow> int RequestRate list" where
  "make_rates per_second per_minute per_hour per_day per_month burst =
     map (\<lambda>(interval, limit). \<lparr>limit = limit, interval = interval\<rparr>)
       (filter (\<lambda>(interval, limit). limit \<noteq> 0)
         (dict_display
           [(SECOND * burst, per_second * burst),
            (MINUTE, per_minute),
            (HOUR, per_hour),
            (DAY, per_day),
            (MONTH, per_month)]))"

text \<open>
  The entries the comprehension is written to produce, before zero limits are dropped:
  the four of fixed interval, and the per-second entry scaled by \<open>burst\<close>.
\<close>

definition fixed_entries :: "int \<Rightarrow> int \<Rightarrow> int \<Rightarrow> int \<Rightarrow> int RequestRate list" where
  "fixed_entries per_minute per_hour per_day per_month =
     [\<lparr>limit = per_minute, interval = MINUTE\<rparr>,
      \<lparr>limit = per_hour, interval = HOUR\<rparr>,
      \<lparr>limit = per_day, interval = DAY\<rparr>,
      \<lparr>limit = per_month, interval = MONTH\<rparr>]"

definition second_entry :: "int \<Rightarrow> int \<Rightarrow> int RequestRate" where
  "second_entry per_second burst = \<lparr>limit = per_second * burst, interval = SECOND * burst\<rparr>"

definition nonzero :: "int RequestRate \<Rightarrow> bool" where
  "nonzero r = (limit r \<noteq> 0)"

section \<open>The limiter, its buckets and its clock\<close>

text \<open>
  The limiter is a collaborator from outside the repository. The code reads three of
  its attributes: \<open>_rates\<close>, \<open>bucket_group\<close> and \<open>time_function\<close>.

  The limit and the interval of a rate the limiter holds are Python numbers: an \<open>int\<close>
  or a \<open>float\<close>. The signature of \<open>__init__\<close> types the limits \<open>float\<close>, and a limiter
  built elsewhere can be handed in. The two are told apart because \<open>range\<close> accepts the
  one and not the other; a float carries the real number it stands for.
\<close>

datatype number = PyInt int | PyFloat real

fun number_value :: "number \<Rightarrow> real" where
  "number_value (PyInt i) = real_of_int i"
| "number_value (PyFloat x) = x"

text \<open>
  A bucket is the list of the timestamps recorded in it, oldest first; a timestamp is
  the real number the clock's reading stands for.
\<close>

type_synonym bucket = "real list"

text \<open>
  The time function is a clock the code calls: each call is a new reading. The clock is
  the sequence of its readings, \<open>time_function\<close>, and \<open>ticks\<close> counts the readings taken
  so far.
\<close>

record Limiter =
  rates :: "number RequestRate list"
  bucket_group :: "string \<rightharpoonup> bucket"
  time_function :: "nat \<Rightarrow> real"
  ticks :: nat

definition call_time_function :: "Limiter \<Rightarrow> real \<times> Limiter" where
  "call_time_function l = (time_function l (ticks l), l\<lparr>ticks := Suc (ticks l)\<rparr>)"

text \<open>
  Modelled from the spec: the two bucket operations of the limiter's interface,
  "count_events_since(timestamp) -> (count, ...)" and "record_event(timestamp)", which
  the code calls as \<open>inspect_expired_items\<close> and \<open>put\<close>. The count is the number of
  recorded events later than the given time; the second component of the result, which
  the code discards, is left out.
\<close>

definition inspect_expired_items :: "bucket \<Rightarrow> real \<Rightarrow> nat" where
  "inspect_expired_items b t = length (filter (\<lambda>item. t < item) b)"

definition put :: "bucket \<Rightarrow> real \<Rightarrow> bucket" where
  "put b item = b @ [item]"

section \<open>Requests, responses, errors\<close>

record PreparedRequest =
  url :: string
  body :: string

record Response =
  status_code :: int
  content :: string

text \<open>
  The result of \<open>urlparse\<close>. The code reads \<open>netloc\<close>; \<open>remainder\<close> stands for the
  components after it.
\<close>

record ParseResult =
  netloc :: string
  remainder :: string

text \<open>
  What a call can raise: the limiter's \<open>BucketFullException\<close>; a missing dictionary key
  and an index out of range; the \<open>TypeError\<close> of \<open>range\<close> on a float; the \<open>ValueError\<close>
  of \<open>urlparse\<close>; and the errors of the transport and of the limiter's constructor and
  backend, which are opaque to the code.
\<close>

datatype error =
    BucketFullException
  | KeyError
  | IndexError
  | TypeError
  | ValueError
  | TransportError string
  | BackendError string

section \<open>\<open>LimiterMixin\<close>\<close>

text \<open>The attributes \<open>__init__\<close> sets.\<close>

record LimiterMixin =
  limiter :: Limiter
  limit_statuses :: "int list"
  max_delay :: "real option"
  per_host :: bool
  default_bucket :: string

text \<open>
  What the code calls and does not define:
  \<^item> \<open>urlparse\<close> of the standard library, which returns a result or raises;
  \<^item> \<open>ratelimit\<close>: entering \<open>limiter.ratelimit(name, delay=True, max_delay=...)\<close>, which
    acquires capacity for the bucket name. It may wait; it changes the limiter; it
    returns normally or raises. The value \<open>None\<close> stands for a call that waits for ever;
  \<^item> \<open>super_send\<close>: the \<open>send\<close> of the base class, which may answer differently on each
    call (it is given the requests sent before) and may raise;
  \<^item> \<open>time_minus\<close>: the subtraction \<open>now - rate.interval\<close> as the interpreter
    evaluates it: exact on two integers, rounded to a float otherwise.
\<close>

record 'k collaborators =
  urlparse :: "string \<Rightarrow> error + ParseResult"
  ratelimit :: "string \<Rightarrow> real option \<Rightarrow> Limiter \<Rightarrow> ((error + unit) \<times> Limiter) option"
  super_send :: "PreparedRequest list \<Rightarrow> PreparedRequest \<Rightarrow> 'k \<Rightarrow> error + Response"
  time_minus :: "real \<Rightarrow> number \<Rightarrow> real"

text \<open>
  The state a call of \<open>send\<close> works on: the object, the records handed to
  \<open>logger.info\<close>, and the requests handed to the transport, in order.
\<close>

record world =
  self :: LimiterMixin
  records :: "string list"
  sent :: "PreparedRequest list"

text \<open>
  \<^verbatim>\<open>
  def _bucket_name(self, request):
      return urlparse(request.url).netloc if self.per_host else self._default_bucket
  \<close>
\<close>

definition bucket_name :: "'k collaborators \<Rightarrow> LimiterMixin \<Rightarrow> PreparedRequest \<Rightarrow> error + string" where
  "bucket_name C s request =
     (if per_host s
      then (case urlparse C (url request) of
              Inl e \<Rightarrow> Inl e
            | Inr parsed \<Rightarrow> Inr (netloc parsed))
      else Inr (default_bucket s))"

text \<open>
  \<open>range(rate.limit - item_count)\<close>. The difference of an int limit and the count is an
  int, and \<open>range(n)\<close> has \<open>n\<close> elements when \<open>n\<close> is positive and none otherwise. The
  difference of a float limit and the count is a float, whatever its value, and \<open>range\<close>
  raises \<open>TypeError\<close> on a float.
\<close>

fun range_limit_minus :: "number \<Rightarrow> nat \<Rightarrow> error + nat list" where
  "range_limit_minus (PyInt n) item_count = Inr [0..<nat (n - int item_count)]"
| "range_limit_minus (PyFloat x) item_count = Inl TypeError"

definition fill_message :: "PreparedRequest \<Rightarrow> string" where
  "fill_message request =
     ''Rate limit exceeded for '' @ url request @ ''; filling limiter bucket''"

text \<open>
  \<^verbatim>\<open>
  def _fill_bucket(self, request: PreparedRequest):
      logger.info(f'Rate limit exceeded for {request.url}; filling limiter bucket')
      bucket = self.limiter.bucket_group[self._bucket_name(request)]
      now = self.limiter.time_function()
      rate = self.limiter._rates[0]
      item_count, _ = bucket.inspect_expired_items(now - rate.interval)
      for _ in range(rate.limit - item_count):
          bucket.put(now)
  \<close>
  The bucket is an object of the bucket group, changed in place: the filled bucket is
  stored back under its name. An exception leaves the function where it is raised, with
  the changes made so far.
\<close>

definition fill_bucket :: "'k collaborators \<Rightarrow> world \<Rightarrow> PreparedRequest \<Rightarrow> (error + unit) \<times> world" where
  "fill_bucket C w request =
     (let w1 = w\<lparr>records := records w @ [fill_message request]\<rparr>
      in case bucket_name C (self w1) request of
           Inl e \<Rightarrow> (Inl e, w1)
         | Inr name \<Rightarrow>
             (case bucket_group (limiter (self w1)) name of
                None \<Rightarrow> (Inl KeyError, w1)
              | Some bucket \<Rightarrow>
                  (let (now, l1) = call_time_function (limiter (self w1));
                       w2 = w1\<lparr>self := (self w1)\<lparr>limiter := l1\<rparr>\<rparr>
                   in case rates l1 of
                        [] \<Rightarrow> (Inl IndexError, w2)
                      | rate # _ \<Rightarrow>
                          (let item_count =
                                 inspect_expired_items bucket (time_minus C now (interval rate))
                           in case range_limit_minus (limit rate) item_count of
                                Inl e \<Rightarrow> (Inl e, w2)
                              | Inr indices \<Rightarrow>
                                  (Inr (), w2\<lparr>self := (self w2)\<lparr>limiter :=
                                     l1\<lparr>bucket_group := (bucket_group l1)
                                          (name \<mapsto> foldl (\<lambda>b _. put b now) bucket indices)\<rparr>\<rparr>\<rparr>)))))"

text \<open>
  \<^verbatim>\<open>
  def send(self, request: PreparedRequest, **kwargs) -> Response:
      with self.limiter.ratelimit(
          self._bucket_name(request),
          delay=True,
          max_delay=self.max_delay,
      ):
          response = super().send(request, **kwargs)
          if response.status_code in self.limit_statuses:
              self._fill_bucket(request)
          return response
  \<close>
  The bucket name is evaluated first, as the argument of \<open>ratelimit\<close>. The result is
  \<open>None\<close> when the acquisition waits for ever.
\<close>

definition send ::
  "'k collaborators \<Rightarrow> world \<Rightarrow> PreparedRequest \<Rightarrow> 'k \<Rightarrow> ((error + Response) \<times> world) option" where
  "send C w request kwargs =
     (case bucket_name C (self w) request of
        Inl e \<Rightarrow> Some (Inl e, w)
      | Inr name \<Rightarrow>
          (case ratelimit C name (max_delay (self w)) (limiter (self w)) of
             None \<Rightarrow> None
           | Some (acquired, l1) \<Rightarrow>
               (let w1 = w\<lparr>self := (self w)\<lparr>limiter := l1\<rparr>\<rparr>
                in case acquired of
                     Inl e \<Rightarrow> Some (Inl e, w1)
                   | Inr _ \<Rightarrow>
                       (let w2 = w1\<lparr>sent := sent w1 @ [request]\<rparr>
                        in case super_send C (sent w1) request kwargs of
                             Inl e \<Rightarrow> Some (Inl e, w2)
                           | Inr response \<Rightarrow>
                               if status_code response \<in> set (limit_statuses (self w2))
                               then (case fill_bucket C w2 request of
                                       (Inl e, w3) \<Rightarrow> Some (Inl e, w3)
                                     | (Inr _, w3) \<Rightarrow> Some (Inr response, w3))
                               else Some (Inr response, w2)))))"

section \<open>Construction (\<open>LimiterMixin.__init__\<close>)\<close>

text \<open>The bucket backends the documentation of \<open>bucket_class\<close> names.\<close>

datatype bucket_class = MemoryQueueBucket | SQLiteBucket | RedisBucket

text \<open>
  The keyword arguments of \<open>__init__\<close>, each under its Python name with \<open>_arg\<close>
  appended. \<open>bucket_kwargs\<close> and the remaining \<open>**kwargs\<close> are handed on unread (to
  the limiter and to the base class) and are left out.
\<close>

record init_args =
  per_second_arg :: int
  per_minute_arg :: int
  per_hour_arg :: int
  per_day_arg :: int
  per_month_arg :: int
  burst_arg :: int
  bucket_class_arg :: bucket_class
  time_function_arg :: "(nat \<Rightarrow> real) option"
  limiter_arg :: "Limiter option"
  max_delay_arg :: "real option"
  per_host_arg :: bool
  limit_statuses_arg :: "int list"

text \<open>The default values of the signature.\<close>

definition default_args :: init_args where
  "default_args =
     \<lparr>per_second_arg = 0, per_minute_arg = 0, per_hour_arg = 0, per_day_arg = 0,
      per_month_arg = 0, burst_arg = 1, bucket_class_arg = MemoryQueueBucket,
      time_function_arg = None, limiter_arg = None, max_delay_arg = None,
      per_host_arg = True, limit_statuses_arg = [429]\<rparr>"

text \<open>
  \<^verbatim>\<open>
  rates = [...]
  if bucket_class != MemoryQueueBucket and not time_function:
      time_function = time
  self.limiter = limiter or Limiter(
      *rates, bucket_class=bucket_class, bucket_kwargs=bucket_kwargs,
      time_function=time_function)
  self.limit_statuses = limit_statuses
  self.max_delay = max_delay
  self.per_host = per_host
  self._default_bucket = str(uuid4())
  \<close>
  The constructor of the limiter, the wall clock \<open>time\<close> and the string of the
  identifier that \<open>uuid4()\<close> draws come from outside the repository and are
  parameters. The limiter's constructor may raise; it is not called when a limiter is
  given.
\<close>

definition init ::
  "(int RequestRate list \<Rightarrow> bucket_class \<Rightarrow> (nat \<Rightarrow> real) option \<Rightarrow> error + Limiter)
     \<Rightarrow> (nat \<Rightarrow> real) \<Rightarrow> string \<Rightarrow> init_args \<Rightarrow> error + LimiterMixin" where
  "init Limiter_new time uuid4 args =
     (let rates = make_rates (per_second_arg args) (per_minute_arg args) (per_hour_arg args)
                    (per_day_arg args) (per_month_arg args) (burst_arg args);
          time_function =
            (if bucket_class_arg args \<noteq> MemoryQueueBucket \<and> time_function_arg args = None
             then Some time else time_function_arg args)
      in case (case limiter_arg args of
                 Some l \<Rightarrow> Inr l
               | None \<Rightarrow> Limiter_new rates (bucket_class_arg args) time_function) of
           Inl e \<Rightarrow> Inl e
         | Inr l \<Rightarrow>
             Inr \<lparr>limiter = l,
                  limit_statuses = limit_statuses_arg args,
                  max_delay = max_delay_arg args,
                  per_host = per_host_arg args,
                  default_bucket = uuid4\<rparr>)"

section \<open>Sequences of sends\<close>




section \<open>The collaborators, modelled\<close>

text \<open>
  The standard library's \<open>urlparse\<close>, for what the code reads of its result, on ASCII
  URLs without spaces and control characters. A scheme is split off when the text before
  the first colon is not empty, begins with a letter and is made of letters, digits,
  \<open>+\<close>, \<open>-\<close> and \<open>.\<close>. When the rest begins with \<open>//\<close>, the network location is what
  follows up to the next \<open>/\<close>, \<open>?\<close> or \<open>#\<close>, whatever it holds, user information
  included; a square bracket without its partner in it raises \<open>ValueError\<close>. Otherwise
  the network location is empty. A location that holds both brackets is taken as it
  stands: recent versions of the library also check the address between them, and that
  check is left out.
\<close>

definition letters :: "char set" where
  "letters = set ''abcdefghijklmnopqrstuvwxyzABCDEFGHIJKLMNOPQRSTUVWXYZ''"

definition scheme_chars :: "char set" where
  "scheme_chars =
     set ''abcdefghijklmnopqrstuvwxyzABCDEFGHIJKLMNOPQRSTUVWXYZ0123456789+-.''"

definition split_scheme :: "string \<Rightarrow> string" where
  "split_scheme u =
     (let s = takeWhile (\<lambda>c. c \<noteq> CHR '':'') u
      in if length s < length u \<and> s \<noteq> [] \<and> hd s \<in> letters \<and> set s \<subseteq> scheme_chars
         then drop (Suc (length s)) u else u)"

definition urlparse_netloc :: "string \<Rightarrow> error + ParseResult" where
  "urlparse_netloc u =
     (let rest = split_scheme u
      in if take 2 rest = ''//''
         then (let location = takeWhile (\<lambda>c. c \<notin> set ''/?#'') (drop 2 rest)
               in if (CHR ''['' \<in> set location \<and> CHR '']'' \<notin> set location)
                     \<or> (CHR '']'' \<in> set location \<and> CHR ''['' \<notin> set location)
                  then Inl ValueError
                  else Inr \<lparr>netloc = location,
                            remainder = dropWhile (\<lambda>c. c \<notin> set ''/?#'') (drop 2 rest)\<rparr>)
         else Inr \<lparr>netloc = [], remainder = rest\<rparr>)"

text \<open>
  The part of a network location after its last \<open>@\<close>: the host and the port, without
  the user information.
\<close>

definition host_port :: "string \<Rightarrow> string" where
  "host_port location = rev (takeWhile (\<lambda>c. c \<noteq> CHR ''@'') (rev location))"

text \<open>The subtraction on values where it is exact.\<close>

definition exact_minus :: "real \<Rightarrow> number \<Rightarrow> real" where
  "exact_minus t i = t - number_value i"

text \<open>
  Modelled from the spec: the wait the limiter would need before the bucket has room
  ("if waiting would be required"). There is none when no rate's window holds its limit.
  Otherwise it is the time until the oldest event in the window of the first such rate
  leaves that window.
\<close>

definition delay_time ::
  "(real \<Rightarrow> number \<Rightarrow> real) \<Rightarrow> number RequestRate list \<Rightarrow> bucket \<Rightarrow> real \<Rightarrow> real option" where
  "delay_time sub rs b now =
     (case filter (\<lambda>rate. number_value (limit rate)
                       \<le> real (inspect_expired_items b (sub now (interval rate)))) rs of
        [] \<Rightarrow> None
      | rate # _ \<Rightarrow>
          Some (case filter (\<lambda>item. sub now (interval rate) < item) b of
                  [] \<Rightarrow> 0
                | item # _ \<Rightarrow> item - sub now (interval rate)))"

text \<open>
  Modelled from the spec: the limiter's "acquire(key, wait=true, max_wait) -> success |
  BucketFull". It reads the clock. When the bucket has room it records the request and
  returns. When a wait is needed that is longer than the maximum delay it raises
  \<open>BucketFullException\<close>. Otherwise it waits and tries again at the next reading of
  the clock; with a clock that never brings room it waits for ever. The bucket of a name
  is created on its first use.
\<close>

partial_function (option) acquire ::
  "(real \<Rightarrow> number \<Rightarrow> real) \<Rightarrow> string \<Rightarrow> real option \<Rightarrow> Limiter
     \<Rightarrow> ((error + unit) \<times> Limiter) option" where
  "acquire sub name max_wait l =
     (let now = fst (call_time_function l);
          l1 = snd (call_time_function l);
          bucket = (case bucket_group l1 name of None \<Rightarrow> [] | Some b \<Rightarrow> b)
      in case delay_time sub (rates l1) bucket now of
           None \<Rightarrow> Some (Inr (), l1\<lparr>bucket_group := (bucket_group l1)(name \<mapsto> put bucket now)\<rparr>)
         | Some wait \<Rightarrow>
             if (case max_wait of None \<Rightarrow> False | Some longest \<Rightarrow> longest < wait)
             then Some (Inl BucketFullException, l1)
             else acquire sub name max_wait l1)"

text \<open>
  Modelled from the spec: the limiter's constructor. It keeps the rates, which are
  integers here, and starts with an empty bucket group ("created lazily per key on first
  use"); without a time function the clock reads 0, 1, 2, ...
\<close>

definition Limiter_basic ::
  "int RequestRate list \<Rightarrow> bucket_class \<Rightarrow> (nat \<Rightarrow> real) option \<Rightarrow> error + Limiter" where
  "Limiter_basic rs bc tf =
     Inr \<lparr>rates = map (\<lambda>r. \<lparr>limit = PyInt (limit r), interval = PyInt (interval r)\<rparr>) rs,
          bucket_group = Map.empty,
          time_function = (case tf of None \<Rightarrow> real | Some f \<Rightarrow> f), ticks = 0\<rparr>"

section \<open>Examples\<close>

text \<open>A transport that answers every request with the given status.\<close>

definition answering :: "int \<Rightarrow> unit collaborators" where
  "answering status =
     \<lparr>urlparse = urlparse_netloc,
      ratelimit = acquire exact_minus,
      super_send = (\<lambda>history request kwargs. Inr \<lparr>status_code = status, content = ''''\<rparr>),
      time_minus = exact_minus\<rparr>"

text \<open>A transport that raises the given error on every call.\<close>

definition failing :: "error \<Rightarrow> unit collaborators" where
  "failing e =
     \<lparr>urlparse = urlparse_netloc,
      ratelimit = acquire exact_minus,
      super_send = (\<lambda>history request kwargs. Inl e),
      time_minus = exact_minus\<rparr>"

text \<open>
  Five requests a minute, three of them recorded for \<open>example.com\<close> at the times 10,
  20 and 30; the clock reads 50, 51, 52, ...
\<close>

definition example_limiter :: Limiter where
  "example_limiter =
     \<lparr>rates = [\<lparr>limit = PyInt 5, interval = PyInt 60\<rparr>],
      bucket_group = [''example.com'' \<mapsto> [10, 20, 30]],
      time_function = (\<lambda>n. 50 + real n),
      ticks = 0\<rparr>"

definition example_world :: world where
  "example_world =
     \<lparr>self = \<lparr>limiter = example_limiter, limit_statuses = [429], max_delay = None,
              per_host = True, default_bucket = ''0f8fad5b''\<rparr>,
      records = [], sent = []\<rparr>"

definition example_request :: PreparedRequest where
  "example_request = \<lparr>url = ''https://example.com/a'', body = ''''\<rparr>"

text \<open>The example world with another rate list.\<close>

definition example_world_with_rates :: "number RequestRate list \<Rightarrow> world" where
  "example_world_with_rates rs =
     example_world\<lparr>self := (self example_world)\<lparr>limiter := example_limiter\<lparr>rates := rs\<rparr>\<rparr>\<rparr>"







text \<open>More requests: another path, another host, user information, a bracket left open.\<close>

definition other_path :: PreparedRequest where
  "other_path = \<lparr>url = ''https://example.com/b?x=1'', body = ''''\<rparr>"

definition other_host :: PreparedRequest where
  "other_host = \<lparr>url = ''https://example.org:8080/a'', body = ''''\<rparr>"

definition request_of_alice :: PreparedRequest where
  "request_of_alice = \<lparr>url = ''https://alice@example.org:8080/a'', body = ''''\<rparr>"

definition request_of_bob :: PreparedRequest where
  "request_of_bob = \<lparr>url = ''https://bob@example.org:8080/a'', body = ''''\<rparr>"

definition open_bracket :: PreparedRequest where
  "open_bracket = \<lparr>url = ''https://[::1/a'', body = ''''\<rparr>"

text \<open>Two argument lists without per-host mode, and the instances built from them.\<close>

definition shared_args :: init_args where
  "shared_args = default_args\<lparr>per_minute_arg := 60, per_host_arg := False\<rparr>"


definition example_instance :: "string \<Rightarrow> LimiterMixin" where
  "example_instance uuid4 =
     \<lparr>limiter = \<lparr>rates = [\<lparr>limit = PyInt 60, interval = PyInt 60\<rparr>], bucket_group = Map.empty,
                  time_function = real, ticks = 0\<rparr>,
      limit_statuses = [429], max_delay = None, per_host = False, default_bucket = uuid4\<rparr>"


section \<open>Rate construction: results\<close>

lemmas duration_defs = SECOND_def MINUTE_def HOUR_def DAY_def MONTH_def

lemma dict_display_rates:
  "dict_display [(SECOND * burst, a), (MINUTE, pm), (HOUR, ph), (DAY, pd), (MONTH, pmo)] =
    (if burst = 60 then [(60, pm), (3600, ph), (86400, pd), (2592000, pmo)]
     else if burst = 3600 then [(3600, ph), (60, pm), (86400, pd), (2592000, pmo)]
     else if burst = 86400 then [(86400, pd), (60, pm), (3600, ph), (2592000, pmo)]
     else if burst = 2592000 then [(2592000, pmo), (60, pm), (3600, ph), (86400, pd)]
     else [(burst, a), (60, pm), (3600, ph), (86400, pd), (2592000, pmo)])"
  by (simp add: dict_display_def duration_defs)

text \<open>The list that \<open>make_rates\<close> builds, for each way the first key can meet a later one.\<close>

lemma make_rates_cases:
  "make_rates ps pm ph pd pmo burst = filter nonzero
     (if burst = 60 then
        [\<lparr>limit = pm, interval = 60\<rparr>, \<lparr>limit = ph, interval = 3600\<rparr>,
         \<lparr>limit = pd, interval = 86400\<rparr>, \<lparr>limit = pmo, interval = 2592000\<rparr>]
      else if burst = 3600 then
        [\<lparr>limit = ph, interval = 3600\<rparr>, \<lparr>limit = pm, interval = 60\<rparr>,
         \<lparr>limit = pd, interval = 86400\<rparr>, \<lparr>limit = pmo, interval = 2592000\<rparr>]
      else if burst = 86400 then
        [\<lparr>limit = pd, interval = 86400\<rparr>, \<lparr>limit = pm, interval = 60\<rparr>,
         \<lparr>limit = ph, interval = 3600\<rparr>, \<lparr>limit = pmo, interval = 2592000\<rparr>]
      else if burst = 2592000 then
        [\<lparr>limit = pmo, interval = 2592000\<rparr>, \<lparr>limit = pm, interval = 60\<rparr>,
         \<lparr>limit = ph, interval = 3600\<rparr>, \<lparr>limit = pd, interval = 86400\<rparr>]
      else
        [\<lparr>limit = ps * burst, interval = burst\<rparr>, \<lparr>limit = pm, interval = 60\<rparr>,
         \<lparr>limit = ph, interval = 3600\<rparr>, \<lparr>limit = pd, interval = 86400\<rparr>,
         \<lparr>limit = pmo, interval = 2592000\<rparr>])"
  unfolding make_rates_def dict_display_rates by (simp add: nonzero_def)

lemma make_rates_no_collision:
  assumes "SECOND * burst \<notin> {MINUTE, HOUR, DAY, MONTH}"
  shows "make_rates per_second per_minute per_hour per_day per_month burst =
         filter nonzero (second_entry per_second burst #
                         fixed_entries per_minute per_hour per_day per_month)"
  using assms unfolding make_rates_cases
  by (simp add: duration_defs second_entry_def fixed_entries_def)

lemma make_rates_burst_60:
  "make_rates per_second per_minute per_hour per_day per_month 60 =
   filter nonzero (fixed_entries per_minute per_hour per_day per_month)"
  unfolding make_rates_cases by (simp add: duration_defs fixed_entries_def)

lemma minute_entry_iff:
  "(\<lparr>limit = pm, interval = MINUTE\<rparr> \<in> set (make_rates ps pm ph pd pmo burst)) = (pm \<noteq> 0)"
  unfolding make_rates_cases by (simp add: duration_defs nonzero_def)

lemma hour_entry_iff:
  "(\<lparr>limit = ph, interval = HOUR\<rparr> \<in> set (make_rates ps pm ph pd pmo burst)) = (ph \<noteq> 0)"
  unfolding make_rates_cases by (simp add: duration_defs nonzero_def)

lemma day_entry_iff:
  "(\<lparr>limit = pd, interval = DAY\<rparr> \<in> set (make_rates ps pm ph pd pmo burst)) = (pd \<noteq> 0)"
  unfolding make_rates_cases by (simp add: duration_defs nonzero_def)

lemma month_entry_iff:
  "(\<lparr>limit = pmo, interval = MONTH\<rparr> \<in> set (make_rates ps pm ph pd pmo burst)) = (pmo \<noteq> 0)"
  unfolding make_rates_cases by (simp add: duration_defs nonzero_def)

lemma make_rates_nonzero:
  "r \<in> set (make_rates ps pm ph pd pmo burst) \<Longrightarrow> limit r \<noteq> 0"
  unfolding make_rates_cases by (simp add: nonzero_def)

lemma second_entry_iff:
  assumes "SECOND * burst \<notin> {MINUTE, HOUR, DAY, MONTH}"
  shows "(second_entry ps burst \<in> set (make_rates ps pm ph pd pmo burst)) = (ps * burst \<noteq> 0)"
  using assms unfolding make_rates_cases
  by (simp add: duration_defs nonzero_def second_entry_def)

text \<open>
  C8, as stated, fails. The claim reads: the rate list has an entry for a convenience
  parameter exactly when the parameter is non-zero. With \<open>per_second = 5\<close> and
  \<open>burst = 0\<close> the limit of the per-second item is \<open>5 * 0 = 0\<close>, the \<open>if limit\<close> test
  drops it and the list is empty. With \<open>per_second = 2\<close>, \<open>per_minute = 100\<close> and
  \<open>burst = 60\<close> the list holds the per-minute rate only.
\<close>

theorem per_second_entry_iff_nonzero_counterexample:
  "(5::int) \<noteq> 0 \<and> make_rates 5 0 0 0 0 0 = []
   \<and> (2::int) \<noteq> 0 \<and> make_rates 2 100 0 0 0 60 = [\<lparr>limit = 100, interval = 60\<rparr>]"
  unfolding make_rates_cases by (simp add: nonzero_def)

text \<open>
  C8, amended. When the key of the per-second item, \<open>SECOND * burst\<close>, is none of
  \<open>MINUTE\<close>, \<open>HOUR\<close>, \<open>DAY\<close>, \<open>MONTH\<close>, the rate list is the five entries in the order
  written, with the entries of limit zero dropped; in particular the per-second entry
  (limit \<open>per_second * burst\<close>, interval \<open>SECOND * burst\<close>) is present exactly when
  \<open>per_second * burst\<close> is non-zero. For every \<open>burst\<close>, the minute, hour, day and month
  entries are present exactly when their parameter is non-zero, with the parameter as
  limit and the fixed duration as interval, so \<open>burst\<close> enters the per-second entry only;
  and no entry of the list has limit zero.
\<close>

theorem rates_entries:
  "(SECOND * burst \<notin> {MINUTE, HOUR, DAY, MONTH} \<longrightarrow>
      make_rates per_second per_minute per_hour per_day per_month burst =
        filter nonzero (second_entry per_second burst #
                        fixed_entries per_minute per_hour per_day per_month)
      \<and> ((second_entry per_second burst
            \<in> set (make_rates per_second per_minute per_hour per_day per_month burst))
          = (per_second * burst \<noteq> 0)))
   \<and> ((\<lparr>limit = per_minute, interval = MINUTE\<rparr>
         \<in> set (make_rates per_second per_minute per_hour per_day per_month burst))
       = (per_minute \<noteq> 0))
   \<and> ((\<lparr>limit = per_hour, interval = HOUR\<rparr>
         \<in> set (make_rates per_second per_minute per_hour per_day per_month burst))
       = (per_hour \<noteq> 0))
   \<and> ((\<lparr>limit = per_day, interval = DAY\<rparr>
         \<in> set (make_rates per_second per_minute per_hour per_day per_month burst))
       = (per_day \<noteq> 0))
   \<and> ((\<lparr>limit = per_month, interval = MONTH\<rparr>
         \<in> set (make_rates per_second per_minute per_hour per_day per_month burst))
       = (per_month \<noteq> 0))
   \<and> (\<forall>r \<in> set (make_rates per_second per_minute per_hour per_day per_month burst).
         limit r \<noteq> 0)"
  using make_rates_no_collision [of burst per_second per_minute per_hour per_day per_month]
    second_entry_iff [of burst per_second per_minute per_hour per_day per_month]
    minute_entry_iff [of per_minute per_second per_hour per_day per_month burst]
    hour_entry_iff [of per_hour per_second per_minute per_day per_month burst]
    day_entry_iff [of per_day per_second per_minute per_hour per_month burst]
    month_entry_iff [of per_month per_second per_minute per_hour per_day burst]
    make_rates_nonzero [of _ per_second per_minute per_hour per_day per_month burst]
  by blast

theorem rates_entries_witness:
  "SECOND * 3 \<notin> {MINUTE, HOUR, DAY, MONTH}
   \<and> make_rates 5 100 0 0 0 3 =
       [\<lparr>limit = 15, interval = 3\<rparr>, \<lparr>limit = 100, interval = 60\<rparr>]
   \<and> second_entry 5 3 \<in> set (make_rates 5 100 0 0 0 3)
   \<and> \<lparr>limit = 100, interval = MINUTE\<rparr> \<in> set (make_rates 5 100 0 0 0 3)
   \<and> \<lparr>limit = 0, interval = HOUR\<rparr> \<notin> set (make_rates 5 100 0 0 0 3)"
  using rates_entries [of 3 5 100 0 0 0]
  by (simp add: duration_defs second_entry_def fixed_entries_def nonzero_def)

text \<open>
  C10. The comprehension keys the parameters by interval. With \<open>burst = 60\<close> the key of
  the per-second item, \<open>SECOND * 60\<close>, is \<open>MINUTE\<close>: the per-minute value replaces the
  burst-scaled per-second value under that key, so the resulting list is the one built
  from the minute, hour, day and month parameters alone, it does not depend on
  \<open>per_second\<close>, and it holds at most one rate for the 60 second interval. With both
  parameters non-zero that rate is the per-minute one, in first position.
\<close>

theorem burst_60_collapses_second_into_minute:
  "SECOND * 60 = MINUTE
   \<and> make_rates per_second per_minute per_hour per_day per_month 60 =
       filter nonzero (fixed_entries per_minute per_hour per_day per_month)
   \<and> make_rates per_second per_minute per_hour per_day per_month 60 =
       make_rates 0 per_minute per_hour per_day per_month 60
   \<and> length (filter (\<lambda>r. interval r = MINUTE)
               (make_rates per_second per_minute per_hour per_day per_month 60)) \<le> 1
   \<and> (per_second \<noteq> 0 \<and> per_minute \<noteq> 0 \<longrightarrow>
        (\<exists>rest. make_rates per_second per_minute per_hour per_day per_month 60 =
                 \<lparr>limit = per_minute, interval = MINUTE\<rparr> # rest))"
proof -
  have a: "SECOND * 60 = MINUTE"
    by (simp add: duration_defs)
  have b: "make_rates per_second per_minute per_hour per_day per_month 60 =
           filter nonzero (fixed_entries per_minute per_hour per_day per_month)"
    by (rule make_rates_burst_60)
  have c: "make_rates per_second per_minute per_hour per_day per_month 60 =
           make_rates 0 per_minute per_hour per_day per_month 60"
    by (simp only: make_rates_burst_60)
  have d: "length (filter (\<lambda>r. interval r = MINUTE)
             (make_rates per_second per_minute per_hour per_day per_month 60)) \<le> 1"
    by (simp add: b fixed_entries_def nonzero_def duration_defs)
  have e: "per_second \<noteq> 0 \<and> per_minute \<noteq> 0 \<longrightarrow>
        (\<exists>rest. make_rates per_second per_minute per_hour per_day per_month 60 =
                 \<lparr>limit = per_minute, interval = MINUTE\<rparr> # rest)"
    by (simp add: b fixed_entries_def nonzero_def)
  from a b c d e show ?thesis by blast
qed

theorem burst_60_collapses_second_into_minute_witness:
  "(1::int) \<noteq> 0 \<and> (100::int) \<noteq> 0
   \<and> make_rates 1 100 0 0 0 60 = [\<lparr>limit = 100, interval = 60\<rparr>]
   \<and> second_entry 1 60 = \<lparr>limit = 60, interval = 60\<rparr>
   \<and> second_entry 1 60 \<notin> set (make_rates 1 100 0 0 0 60)"
  using burst_60_collapses_second_into_minute [of 1 100 0 0 0]
  by (simp add: fixed_entries_def nonzero_def second_entry_def duration_defs)

section \<open>The catch-up filler\<close>

lemma foldl_put_upt: "foldl (\<lambda>b _. put b now) bucket [0..<k] = bucket @ replicate k now"
  by (induction k) (simp_all add: put_def replicate_append_same)

lemma replicate_numeral:
  "replicate (numeral n) x = x # replicate (pred_numeral n) x"
  by (simp add: numeral_eq_Suc)

lemma bucket_name_limiter [simp]:
  "bucket_name C (s\<lparr>limiter := l\<rparr>) request = bucket_name C s request"
  by (simp add: bucket_name_def)

text \<open>The filler on an int limit: it returns, and the bucket gains the deficit.\<close>

lemma fill_bucket_int:
  assumes "bucket_name C (self w) request = Inr name"
    and "bucket_group (limiter (self w)) name = Some b"
    and "rates (limiter (self w)) = rate # rest"
    and "limit rate = PyInt L"
  shows "fill_bucket C w request =
    (Inr (),
     w\<lparr>records := records w @ [fill_message request],
       self := (self w)\<lparr>limiter := (limiter (self w))
         \<lparr>ticks := Suc (ticks (limiter (self w))),
          bucket_group := (bucket_group (limiter (self w)))
            (name \<mapsto>
               b @ replicate
                 (nat (L - int (inspect_expired_items b
                    (time_minus C (time_function (limiter (self w)) (ticks (limiter (self w))))
                       (interval rate)))))
                 (time_function (limiter (self w)) (ticks (limiter (self w)))))\<rparr>\<rparr>\<rparr>)"
  using assms
  by (simp add: fill_bucket_def call_time_function_def foldl_put_upt Let_def)

text \<open>The filler on a float limit: \<open>range\<close> raises, after the clock was read.\<close>

lemma fill_bucket_float:
  assumes "bucket_name C (self w) request = Inr name"
    and "bucket_group (limiter (self w)) name = Some b"
    and "rates (limiter (self w)) = rate # rest"
    and "limit rate = PyFloat x"
  shows "fill_bucket C w request =
    (Inl TypeError,
     w\<lparr>records := records w @ [fill_message request],
       self := (self w)\<lparr>limiter := (limiter (self w))
         \<lparr>ticks := Suc (ticks (limiter (self w)))\<rparr>\<rparr>\<rparr>)"
  using assms
  by (simp add: fill_bucket_def call_time_function_def Let_def)

lemma fill_bucket_no_name:
  assumes "bucket_name C (self w) request = Inl e"
  shows "fill_bucket C w request = (Inl e, w\<lparr>records := records w @ [fill_message request]\<rparr>)"
  using assms by (simp add: fill_bucket_def Let_def)

lemma fill_bucket_no_bucket:
  assumes "bucket_name C (self w) request = Inr name"
    and "bucket_group (limiter (self w)) name = None"
  shows "fill_bucket C w request =
           (Inl KeyError, w\<lparr>records := records w @ [fill_message request]\<rparr>)"
  using assms by (simp add: fill_bucket_def Let_def)

lemma fill_bucket_no_rate:
  assumes "bucket_name C (self w) request = Inr name"
    and "bucket_group (limiter (self w)) name = Some b"
    and "rates (limiter (self w)) = []"
  shows "fill_bucket C w request =
    (Inl IndexError,
     w\<lparr>records := records w @ [fill_message request],
       self := (self w)\<lparr>limiter := (limiter (self w))
         \<lparr>ticks := Suc (ticks (limiter (self w)))\<rparr>\<rparr>\<rparr>)"
  using assms
  by (simp add: fill_bucket_def call_time_function_def Let_def)

lemma urlparse_example:
  "urlparse_netloc (url example_request) = Inr \<lparr>netloc = ''example.com'', remainder = ''/a''\<rparr>"
  by (simp add: urlparse_netloc_def split_scheme_def example_request_def letters_def
      scheme_chars_def Let_def)

lemma example_name_per_host:
  "per_host s \<Longrightarrow> bucket_name (answering st) s example_request = Inr ''example.com''"
  by (simp add: bucket_name_def answering_def urlparse_example)

lemma example_name:
  "bucket_name (answering st) (self example_world) example_request = Inr ''example.com''"
  by (simp add: example_name_per_host example_world_def)

lemma example_world_with_rates_name:
  "bucket_name (answering st) (self (example_world_with_rates rs)) example_request
     = Inr ''example.com''"
  by (simp add: example_name_per_host example_world_with_rates_def example_world_def)

text \<open>
  C1. Let the bucket of the request exist and the rate list be not empty; let \<open>now\<close> be
  the clock reading the filler takes and \<open>c\<close> the number of events the bucket reports as
  later than \<open>now - interval\<close>, for the interval of the first rate and the subtraction as
  the interpreter evaluates it. When the limit \<open>L\<close> of the first rate is an int, the
  filler returns normally and the bucket afterwards is the bucket before followed by
  exactly \<open>max 0 (L - c)\<close> events, each with the timestamp \<open>now\<close>: with \<open>c = 3\<close> and
  \<open>L = 5\<close> two events are added; with \<open>L \<le> c\<close> the bucket is unchanged. When the limit
  of the first rate is a float, whatever its value, \<open>range\<close> raises \<open>TypeError\<close>,
  the filler raises it and no bucket changes: nothing is inserted, also where the
  deficit is positive. In both cases no other bucket changes.
\<close>

theorem fill_bucket_inserts_deficit:
  fixes w :: world and C :: "'k collaborators" and request :: PreparedRequest
  defines "l \<equiv> limiter (self w)"
    and "w' \<equiv> snd (fill_bucket C w request)"
  defines "now \<equiv> time_function l (ticks l)"
  assumes n: "bucket_name C (self w) request = Inr name"
    and b: "bucket_group l name = Some b" and r: "rates l = rate # rest"
  defines "c \<equiv> inspect_expired_items b (time_minus C now (interval rate))"
  shows "(\<forall>L. limit rate = PyInt L \<longrightarrow>
            fst (fill_bucket C w request) = Inr ()
            \<and> bucket_group (limiter (self w')) name =
                Some (b @ replicate (nat (max 0 (L - int c))) now)
            \<and> (L = 5 \<and> c = 3 \<longrightarrow>
                 bucket_group (limiter (self w')) name = Some (b @ [now, now]))
            \<and> (L \<le> int c \<longrightarrow> bucket_group (limiter (self w')) name = Some b))
       \<and> (\<forall>x. limit rate = PyFloat x \<longrightarrow>
            fst (fill_bucket C w request) = Inl TypeError
            \<and> bucket_group (limiter (self w')) = bucket_group l)
       \<and> (\<forall>k. k \<noteq> name \<longrightarrow> bucket_group (limiter (self w')) k = bucket_group l k)"
proof -
  have int_case: "fst (fill_bucket C w request) = Inr ()
            \<and> bucket_group (limiter (self w')) name =
                Some (b @ replicate (nat (max 0 (L - int c))) now)
            \<and> (L = 5 \<and> c = 3 \<longrightarrow>
                 bucket_group (limiter (self w')) name = Some (b @ [now, now]))
            \<and> (L \<le> int c \<longrightarrow> bucket_group (limiter (self w')) name = Some b)"
    if L: "limit rate = PyInt L" for L
  proof -
    have eq: "nat (max 0 (L - int c)) = nat (L - int c)"
      by simp
    note fb = fill_bucket_int [OF n b [unfolded l_def] r [unfolded l_def] L]
    have 1: "fst (fill_bucket C w request) = Inr ()"
      by (simp add: fb)
    have 2: "bucket_group (limiter (self w')) name =
           Some (b @ replicate (nat (max 0 (L - int c))) now)"
      unfolding eq by (simp add: fb w'_def c_def now_def l_def)
    have 3: "L = 5 \<and> c = 3 \<longrightarrow>
           bucket_group (limiter (self w')) name = Some (b @ [now, now])"
      using 2 by (simp add: numeral_2_eq_2)
    have 4: "L \<le> int c \<longrightarrow> bucket_group (limiter (self w')) name = Some b"
      using 2 by simp
    from 1 2 3 4 show ?thesis by blast
  qed
  have float_case: "fst (fill_bucket C w request) = Inl TypeError
            \<and> bucket_group (limiter (self w')) = bucket_group l"
    if x: "limit rate = PyFloat x" for x
    by (simp add: fill_bucket_float [OF n b [unfolded l_def] r [unfolded l_def] x]
        w'_def l_def)
  have others: "bucket_group (limiter (self w')) k = bucket_group l k" if k: "k \<noteq> name" for k
  proof (cases "limit rate")
    case (PyInt L)
    show ?thesis
      using k by (simp add: fill_bucket_int [OF n b [unfolded l_def] r [unfolded l_def] PyInt]
          w'_def l_def)
  next
    case (PyFloat x)
    show ?thesis
      using float_case [OF PyFloat] by simp
  qed
  from int_case float_case others show ?thesis by blast
qed

theorem fill_bucket_inserts_deficit_witness:
  "bucket_name (answering 429) (self example_world) example_request = Inr ''example.com''
   \<and> bucket_group (limiter (self example_world)) ''example.com'' = Some [10, 20, 30]
   \<and> rates (limiter (self example_world)) = [\<lparr>limit = PyInt 5, interval = PyInt 60\<rparr>]
   \<and> time_function (limiter (self example_world)) (ticks (limiter (self example_world))) = 50
   \<and> inspect_expired_items [10, 20, 30] (time_minus (answering 429) 50 (PyInt 60)) = 3
   \<and> fst (fill_bucket (answering 429) example_world example_request) = Inr ()
   \<and> bucket_group (limiter (self (snd (fill_bucket (answering 429) example_world example_request))))
       ''example.com'' = Some [10, 20, 30, 50, 50]
   \<and> rates (limiter (self (example_world_with_rates [\<lparr>limit = PyFloat 5, interval = PyInt 60\<rparr>])))
       = [\<lparr>limit = PyFloat 5, interval = PyInt 60\<rparr>]
   \<and> fst (fill_bucket (answering 429)
        (example_world_with_rates [\<lparr>limit = PyFloat 5, interval = PyInt 60\<rparr>]) example_request)
       = Inl TypeError
   \<and> bucket_group (limiter (self (snd (fill_bucket (answering 429)
        (example_world_with_rates [\<lparr>limit = PyFloat 5, interval = PyInt 60\<rparr>]) example_request))))
       ''example.com'' = Some [10, 20, 30]
   \<and> rates (limiter (self (example_world_with_rates [\<lparr>limit = PyInt 2, interval = PyInt 60\<rparr>])))
       = [\<lparr>limit = PyInt 2, interval = PyInt 60\<rparr>]
   \<and> fst (fill_bucket (answering 429)
        (example_world_with_rates [\<lparr>limit = PyInt 2, interval = PyInt 60\<rparr>]) example_request)
       = Inr ()
   \<and> bucket_group (limiter (self (snd (fill_bucket (answering 429)
        (example_world_with_rates [\<lparr>limit = PyInt 2, interval = PyInt 60\<rparr>]) example_request))))
       ''example.com'' = Some [10, 20, 30]"
proof -
  let ?F = "example_world_with_rates [\<lparr>limit = PyFloat 5, interval = PyInt 60\<rparr>]"
  let ?G = "example_world_with_rates [\<lparr>limit = PyInt 2, interval = PyInt 60\<rparr>]"
  have n: "bucket_name (answering 429) (self example_world) example_request = Inr ''example.com''"
    by (rule example_name)
  have b: "bucket_group (limiter (self example_world)) ''example.com'' = Some [10, 20, 30]"
    by (simp add: example_world_def example_limiter_def)
  have r: "rates (limiter (self example_world)) = \<lparr>limit = PyInt 5, interval = PyInt 60\<rparr> # []"
    by (simp add: example_world_def example_limiter_def)
  have t: "time_function (limiter (self example_world)) (ticks (limiter (self example_world))) = 50"
    by (simp add: example_world_def example_limiter_def)
  have c: "inspect_expired_items [10, 20, 30] (time_minus (answering 429) 50 (PyInt 60)) = 3"
    by (simp add: inspect_expired_items_def answering_def exact_minus_def)
  have nF: "bucket_name (answering 429) (self ?F) example_request = Inr ''example.com''"
    by (rule example_world_with_rates_name)
  have bF: "bucket_group (limiter (self ?F)) ''example.com'' = Some [10, 20, 30]"
    by (simp add: example_world_with_rates_def example_limiter_def)
  have rF: "rates (limiter (self ?F)) = \<lparr>limit = PyFloat 5, interval = PyInt 60\<rparr> # []"
    by (simp add: example_world_with_rates_def)
  note A = fill_bucket_inserts_deficit [OF n b r, THEN conjunct1, rule_format, of 5]
  note B = fill_bucket_inserts_deficit [OF nF bF rF, THEN conjunct2, THEN conjunct1,
      rule_format, of 5]
  have 1: "fst (fill_bucket (answering 429) example_world example_request) = Inr ()"
    using A by simp
  have 2: "bucket_group (limiter (self (snd (fill_bucket (answering 429) example_world
             example_request)))) ''example.com'' = Some [10, 20, 30, 50, 50]"
    using A c unfolding t by (simp add: replicate_numeral)
  have 3: "fst (fill_bucket (answering 429) ?F example_request) = Inl TypeError"
    using B by simp
  have 4: "bucket_group (limiter (self (snd (fill_bucket (answering 429) ?F example_request))))
             ''example.com'' = Some [10, 20, 30]"
    using B bF by simp
  have nG: "bucket_name (answering 429) (self ?G) example_request = Inr ''example.com''"
    by (rule example_world_with_rates_name)
  have bG: "bucket_group (limiter (self ?G)) ''example.com'' = Some [10, 20, 30]"
    by (simp add: example_world_with_rates_def example_limiter_def)
  have rG: "rates (limiter (self ?G)) = \<lparr>limit = PyInt 2, interval = PyInt 60\<rparr> # []"
    by (simp add: example_world_with_rates_def)
  have tG: "time_function (limiter (self ?G)) (ticks (limiter (self ?G))) = 50"
    by (simp add: example_world_with_rates_def example_limiter_def)
  note G = fill_bucket_inserts_deficit [OF nG bG rG, THEN conjunct1, rule_format, of 2]
  have 5: "fst (fill_bucket (answering 429) ?G example_request) = Inr ()"
    using G by simp
  have 6: "bucket_group (limiter (self (snd (fill_bucket (answering 429) ?G example_request))))
             ''example.com'' = Some [10, 20, 30]"
    using G [THEN conjunct2, THEN conjunct2, THEN conjunct2] c unfolding tG by simp
  from n b r t c 1 2 rF 3 4 rG 5 6 show ?thesis by simp
qed

section \<open>The limiter's acquisition\<close>






text \<open>The three ways a round of the acquisition ends.\<close>

lemma acquire_room:
  assumes "delay_time sub (rates l) (case bucket_group l name of None \<Rightarrow> [] | Some b \<Rightarrow> b)
             (time_function l (ticks l)) = None"
  shows "acquire sub name max_wait l =
    Some (Inr (),
          l\<lparr>ticks := Suc (ticks l),
            bucket_group := (bucket_group l)
              (name \<mapsto> put (case bucket_group l name of None \<Rightarrow> [] | Some b \<Rightarrow> b)
                         (time_function l (ticks l)))\<rparr>)"
  using assms by (subst acquire.simps) (simp add: call_time_function_def Let_def)







section \<open>The send interceptor\<close>

lemma fill_bucket_records:
  "records (snd (fill_bucket C w request)) = records w @ [fill_message request]"
  by (simp add: fill_bucket_def call_time_function_def Let_def
      split: sum.split option.split list.split)

lemma fill_bucket_sent:
  "sent (snd (fill_bucket C w request)) = sent w"
  by (simp add: fill_bucket_def call_time_function_def Let_def
      split: sum.split option.split list.split)

lemma fill_bucket_other_buckets:
  "bucket_name C (self w) request \<noteq> Inr k \<Longrightarrow>
   bucket_group (limiter (self (snd (fill_bucket C w request)))) k = bucket_group (limiter (self w)) k"
  by (simp add: fill_bucket_def call_time_function_def Let_def
      split: sum.split option.split list.split)

text \<open>When the filler returns, and what it raises when it does not.\<close>

lemma fill_bucket_returns_iff:
  assumes "bucket_name C (self w) request = Inr name"
  shows "(fst (fill_bucket C w request) = Inr ()) =
         (\<exists>b rate rest L. bucket_group (limiter (self w)) name = Some b
            \<and> rates (limiter (self w)) = rate # rest \<and> limit rate = PyInt L)"
proof (cases "bucket_group (limiter (self w)) name")
  case None
  then show ?thesis
    by (simp add: fill_bucket_no_bucket [OF assms])
next
  case (Some b)
  show ?thesis
  proof (cases "rates (limiter (self w))")
    case Nil
    then show ?thesis
      using Some by (simp add: fill_bucket_no_rate [OF assms])
  next
    case (Cons rate rest)
    show ?thesis
    proof (cases "limit rate")
      case (PyInt L)
      then show ?thesis
        using Some Cons by (simp add: fill_bucket_int [OF assms])
    next
      case (PyFloat x)
      then show ?thesis
        using Some Cons by (simp add: fill_bucket_float [OF assms])
    qed
  qed
qed





lemma send_transport_fails:
  assumes "bucket_name C (self w) request = Inr name"
    and "ratelimit C name (max_delay (self w)) (limiter (self w)) = Some (Inr u, l1)"
    and "super_send C (sent w) request kwargs = Inl e"
  shows "send C w request kwargs =
           Some (Inl e, w\<lparr>self := (self w)\<lparr>limiter := l1\<rparr>, sent := sent w @ [request]\<rparr>)"
  using assms by (simp add: send_def)

lemma send_response:
  assumes "bucket_name C (self w) request = Inr name"
    and "ratelimit C name (max_delay (self w)) (limiter (self w)) = Some (Inr u, l1)"
    and "super_send C (sent w) request kwargs = Inr response"
  shows "send C w request kwargs =
     Some (if status_code response \<in> set (limit_statuses (self w))
      then (case fst (fill_bucket C (w\<lparr>self := (self w)\<lparr>limiter := l1\<rparr>, sent := sent w @ [request]\<rparr>) request) of
              Inl e \<Rightarrow> Inl e | Inr _ \<Rightarrow> Inr response,
            snd (fill_bucket C (w\<lparr>self := (self w)\<lparr>limiter := l1\<rparr>, sent := sent w @ [request]\<rparr>) request))
      else (Inr response, w\<lparr>self := (self w)\<lparr>limiter := l1\<rparr>, sent := sent w @ [request]\<rparr>))"
  using assms by (simp add: send_def split: prod.split sum.split)

text \<open>The examples, evaluated.\<close>

lemma example_name_failing:
  "bucket_name (failing e) (self example_world) example_request = Inr ''example.com''"
  by (simp add: bucket_name_def failing_def example_world_def urlparse_example)


lemma example_acquire:
  "acquire exact_minus ''example.com'' max_wait example_limiter =
     Some (Inr (),
           example_limiter\<lparr>bucket_group := [''example.com'' \<mapsto> [10, 20, 30, 50]], ticks := 1\<rparr>)"
proof -
  have "delay_time exact_minus (rates example_limiter)
          (case bucket_group example_limiter ''example.com'' of None \<Rightarrow> [] | Some b \<Rightarrow> b)
          (time_function example_limiter (ticks example_limiter)) = None"
    by (simp add: delay_time_def example_limiter_def inspect_expired_items_def exact_minus_def)
  from acquire_room [OF this] show ?thesis
    by (simp add: example_limiter_def put_def)
qed





lemma init_attributes:
  assumes "init Limiter_new time uuid4 args = Inr s"
  shows "default_bucket s = uuid4" and "per_host s = per_host_arg args"
    and "limit_statuses s = limit_statuses_arg args" and "max_delay s = max_delay_arg args"
  using assms by (auto simp: init_def Let_def split: sum.splits)

lemma init_shared_args:
  "init Limiter_basic real u shared_args = Inr (example_instance u)"
proof -
  have "make_rates 0 60 0 0 0 1 = [\<lparr>limit = 60, interval = 60\<rparr>]"
    by (simp add: make_rates_def dict_display_def SECOND_def MINUTE_def HOUR_def DAY_def
        MONTH_def)
  then show ?thesis
    by (simp add: init_def shared_args_def default_args_def Limiter_basic_def
        example_instance_def)
qed




text \<open>
  C4. When the acquisition succeeds and the transport returns a response, \<open>send\<close>
  returns or raises (it does not wait), and the filler runs exactly when the response's
  status code is in \<open>limit_statuses\<close>: the log gains the filler's record in that case and
  nothing otherwise, and the state \<open>send\<close> leaves is the one the filler leaves when
  called with the same request on the state after the transport call (respectively that
  state itself). The filler works on the bucket of the request's name: no other bucket
  differs from what the acquisition left. A response that \<open>send\<close> returns is the
  transport's response. After a response with a limit status, \<open>send\<close> returns it
  exactly when the filler returns, which is when the bucket of the request exists, the
  rate list is not empty and the limit of the first rate is an int; when that limit is a
  float, \<open>send\<close> raises the filler's \<open>TypeError\<close> and the caller gets no response. The
  status set is the \<open>limit_statuses\<close> argument of the constructor, whose default holds
  429 alone.
\<close>

theorem send_response_fills_on_limit_status:
  fixes C :: "'k collaborators"
  assumes n: "bucket_name C (self w) request = Inr name"
    and acq: "ratelimit C name (max_delay (self w)) (limiter (self w)) = Some (Inr (), l1)"
    and tr: "super_send C (sent w) request kwargs = Inr response"
  defines "w2 \<equiv> w\<lparr>self := (self w)\<lparr>limiter := l1\<rparr>, sent := sent w @ [request]\<rparr>"
    and "result \<equiv> the (send C w request kwargs)"
  defines "limited \<equiv> status_code response \<in> set (limit_statuses (self w))"
  shows "send C w request kwargs \<noteq> None
       \<and> records (snd result) = records w @ (if limited then [fill_message request] else [])
       \<and> (limited \<longrightarrow>
            snd result = snd (fill_bucket C w2 request)
            \<and> fst result = (case fst (fill_bucket C w2 request) of
                              Inl e \<Rightarrow> Inl e | Inr _ \<Rightarrow> Inr response))
       \<and> (\<not> limited \<longrightarrow> result = (Inr response, w2))
       \<and> (\<forall>k. k \<noteq> name \<longrightarrow> bucket_group (limiter (self (snd result))) k = bucket_group l1 k)
       \<and> (\<forall>r. fst result = Inr r \<longrightarrow> r = response)
       \<and> (limited \<longrightarrow>
            (fst result = Inr response) =
              (\<exists>b rate rest L. bucket_group l1 name = Some b \<and> rates l1 = rate # rest
                 \<and> limit rate = PyInt L))
       \<and> (limited \<and> bucket_group l1 name \<noteq> None
            \<and> (\<exists>rate rest x. rates l1 = rate # rest \<and> limit rate = PyFloat x) \<longrightarrow>
            fst result = Inl TypeError)
       \<and> (init Limiter_new time uuid4 args = Inr s \<longrightarrow>
            limit_statuses s = limit_statuses_arg args)
       \<and> limit_statuses_arg default_args = [429]"
proof -
  note sr = send_response [OF n acq tr]
  have n2: "bucket_name C (self w2) request = Inr name"
    using n by (simp add: w2_def)
  have 0: "send C w request kwargs \<noteq> None"
    by (simp add: sr)
  have 1: "records (snd result) =
           records w @ (if limited then [fill_message request] else [])"
    by (simp add: result_def limited_def sr fill_bucket_records)
  have 2: "limited \<longrightarrow>
            snd result = snd (fill_bucket C w2 request)
            \<and> fst result = (case fst (fill_bucket C w2 request) of
                              Inl e \<Rightarrow> Inl e | Inr _ \<Rightarrow> Inr response)"
    by (simp add: result_def limited_def w2_def sr)
  have 3: "\<not> limited \<longrightarrow> result = (Inr response, w2)"
    by (simp add: result_def limited_def w2_def sr)
  have 4: "\<forall>k. k \<noteq> name \<longrightarrow> bucket_group (limiter (self (snd result))) k = bucket_group l1 k"
  proof (intro allI impI)
    fix k assume k: "k \<noteq> name"
    have "bucket_group (limiter (self (snd (fill_bucket C w2 request)))) k
            = bucket_group (limiter (self w2)) k"
      using k n2 by (intro fill_bucket_other_buckets) simp
    then show "bucket_group (limiter (self (snd result))) k = bucket_group l1 k"
      using 2 3 by (cases limited) (simp_all add: w2_def)
  qed
  have 5: "\<forall>r. fst result = Inr r \<longrightarrow> r = response"
    by (simp add: result_def sr split: sum.split)
  have 6: "limited \<longrightarrow>
            (fst result = Inr response) =
              (\<exists>b rate rest L. bucket_group l1 name = Some b \<and> rates l1 = rate # rest
                 \<and> limit rate = PyInt L)"
  proof
    assume limited
    then have "(fst result = Inr response) = (fst (fill_bucket C w2 request) = Inr ())"
      using 2 by (simp split: sum.split)
    also have "\<dots> = (\<exists>b rate rest L. bucket_group (limiter (self w2)) name = Some b
                 \<and> rates (limiter (self w2)) = rate # rest \<and> limit rate = PyInt L)"
      by (rule fill_bucket_returns_iff [OF n2])
    finally show "(fst result = Inr response) =
              (\<exists>b rate rest L. bucket_group l1 name = Some b \<and> rates l1 = rate # rest
                 \<and> limit rate = PyInt L)"
      by (simp add: w2_def)
  qed
  have 7: "limited \<and> bucket_group l1 name \<noteq> None
            \<and> (\<exists>rate rest x. rates l1 = rate # rest \<and> limit rate = PyFloat x) \<longrightarrow>
            fst result = Inl TypeError"
  proof
    assume h: "limited \<and> bucket_group l1 name \<noteq> None
            \<and> (\<exists>rate rest x. rates l1 = rate # rest \<and> limit rate = PyFloat x)"
    then obtain b rate rest x where b: "bucket_group (limiter (self w2)) name = Some b"
      and r: "rates (limiter (self w2)) = rate # rest" and x: "limit rate = PyFloat x"
      by (auto simp: w2_def)
    have "fst (fill_bucket C w2 request) = Inl TypeError"
      by (simp add: fill_bucket_float [OF n2 b r x])
    with h 2 show "fst result = Inl TypeError"
      by simp
  qed
  have 8: "init Limiter_new time uuid4 args = Inr s \<longrightarrow>
            limit_statuses s = limit_statuses_arg args"
    using init_attributes(3) by blast
  have 9: "limit_statuses_arg default_args = [429]"
    by (simp add: default_args_def)
  from 0 1 2 3 4 5 6 7 8 9 show ?thesis by blast
qed

lemma float_acquire:
  "acquire exact_minus ''example.com'' max_wait
     (example_limiter\<lparr>rates := [\<lparr>limit = PyFloat 5, interval = PyInt 60\<rparr>]\<rparr>) =
     Some (Inr (),
           example_limiter\<lparr>rates := [\<lparr>limit = PyFloat 5, interval = PyInt 60\<rparr>],
             bucket_group := [''example.com'' \<mapsto> [10, 20, 30, 50]], ticks := 1\<rparr>)"
proof -
  let ?l = "example_limiter\<lparr>rates := [\<lparr>limit = PyFloat 5, interval = PyInt 60\<rparr>]\<rparr>"
  have "delay_time exact_minus (rates ?l)
          (case bucket_group ?l ''example.com'' of None \<Rightarrow> [] | Some b \<Rightarrow> b)
          (time_function ?l (ticks ?l)) = None"
    by (simp add: delay_time_def example_limiter_def inspect_expired_items_def exact_minus_def)
  from acquire_room [OF this] show ?thesis
    by (simp add: example_limiter_def put_def)
qed

theorem send_response_fills_on_limit_status_witness:
  "bucket_name (answering 429) (self example_world) example_request = Inr ''example.com''
   \<and> ratelimit (answering 429) ''example.com'' (max_delay (self example_world))
        (limiter (self example_world)) =
       Some (Inr (),
             example_limiter\<lparr>bucket_group := [''example.com'' \<mapsto> [10, 20, 30, 50]], ticks := 1\<rparr>)
   \<and> super_send (answering 429) (sent example_world) example_request ()
       = Inr \<lparr>status_code = 429, content = ''''\<rparr>
   \<and> 429 \<in> set (limit_statuses (self example_world))
   \<and> fst (the (send (answering 429) example_world example_request ()))
       = Inr \<lparr>status_code = 429, content = ''''\<rparr>
   \<and> records (snd (the (send (answering 429) example_world example_request ())))
       = [fill_message example_request]
   \<and> bucket_group (limiter (self (snd (the (send (answering 429) example_world
        example_request ()))))) ''example.com'' = Some [10, 20, 30, 50, 51]
   \<and> rates (limiter (self (example_world_with_rates [\<lparr>limit = PyFloat 5, interval = PyInt 60\<rparr>])))
       = [\<lparr>limit = PyFloat 5, interval = PyInt 60\<rparr>]
   \<and> fst (the (send (answering 429)
        (example_world_with_rates [\<lparr>limit = PyFloat 5, interval = PyInt 60\<rparr>])
        example_request ())) = Inl TypeError
   \<and> records (snd (the (send (answering 429)
        (example_world_with_rates [\<lparr>limit = PyFloat 5, interval = PyInt 60\<rparr>])
        example_request ()))) = [fill_message example_request]
   \<and> 200 \<notin> set (limit_statuses (self example_world))
   \<and> fst (the (send (answering 200) example_world example_request ()))
       = Inr \<lparr>status_code = 200, content = ''''\<rparr>
   \<and> records (snd (the (send (answering 200) example_world example_request ()))) = []
   \<and> bucket_group (limiter (self (snd (the (send (answering 200) example_world
        example_request ()))))) ''example.com'' = Some [10, 20, 30, 50]
   \<and> init Limiter_basic real ''0f8fad5b'' shared_args = Inr (example_instance ''0f8fad5b'')
   \<and> limit_statuses_arg shared_args = limit_statuses_arg default_args
   \<and> limit_statuses (example_instance ''0f8fad5b'') = [429]"
proof -
  let ?C = "answering 429"
  let ?D = "answering 200"
  let ?R = "\<lparr>status_code = 429, content = ''''\<rparr>"
  let ?l1 = "example_limiter\<lparr>bucket_group := [''example.com'' \<mapsto> [10, 20, 30, 50]], ticks := 1\<rparr>"
  let ?w2 = "example_world\<lparr>self := (self example_world)\<lparr>limiter := ?l1\<rparr>,
                sent := sent example_world @ [example_request]\<rparr>"
  let ?F = "example_world_with_rates [\<lparr>limit = PyFloat 5, interval = PyInt 60\<rparr>]"
  let ?f1 = "example_limiter\<lparr>rates := [\<lparr>limit = PyFloat 5, interval = PyInt 60\<rparr>],
               bucket_group := [''example.com'' \<mapsto> [10, 20, 30, 50]], ticks := 1\<rparr>"
  have n: "bucket_name ?C (self example_world) example_request = Inr ''example.com''"
    by (rule example_name)
  have acq: "ratelimit ?C ''example.com'' (max_delay (self example_world))
               (limiter (self example_world)) = Some (Inr (), ?l1)"
    by (simp add: answering_def example_world_def example_acquire)
  have tr: "super_send ?C (sent example_world) example_request () = Inr ?R"
    by (simp add: answering_def)
  have st: "429 \<in> set (limit_statuses (self example_world))"
    by (simp add: example_world_def)
  have w: "records example_world = []"
    by (simp add: example_world_def)
  have n2: "bucket_name ?C (self ?w2) example_request = Inr ''example.com''"
    using n by simp
  have fill: "bucket_group (limiter (self (snd (fill_bucket ?C ?w2 example_request))))
       ''example.com'' = Some [10, 20, 30, 50, 51]"
  proof -
    have bg: "bucket_group (limiter (self ?w2)) ''example.com'' = Some [10, 20, 30, 50]"
      by simp
    have rt: "rates (limiter (self ?w2)) = \<lparr>limit = PyInt 5, interval = PyInt 60\<rparr> # []"
      by (simp add: example_limiter_def)
    have lm: "limit \<lparr>limit = PyInt 5, interval = PyInt 60\<rparr> = PyInt 5"
      by simp
    have t: "time_function (limiter (self ?w2)) (ticks (limiter (self ?w2))) = 51"
      by (simp add: example_limiter_def)
    have c: "inspect_expired_items [10, 20, 30, 50] (time_minus ?C 51 (PyInt 60)) = 4"
      by (simp add: inspect_expired_items_def answering_def exact_minus_def)
    show ?thesis
      unfolding fill_bucket_int [OF n2 bg rt lm] t by (simp add: c)
  qed
  note T = send_response_fills_on_limit_status [OF n acq tr]
  have s1: "records (snd (the (send ?C example_world example_request ())))
       = [fill_message example_request]"
    using T [THEN conjunct2, THEN conjunct1] st w by simp
  have s2: "snd (the (send ?C example_world example_request ()))
       = snd (fill_bucket ?C ?w2 example_request)"
    using T [THEN conjunct2, THEN conjunct2, THEN conjunct1] st by simp
  have ready: "\<exists>b rate rest L. bucket_group ?l1 ''example.com'' = Some b
                 \<and> rates ?l1 = rate # rest \<and> limit rate = PyInt L"
    by (simp add: example_limiter_def)
  have s3: "fst (the (send ?C example_world example_request ())) = Inr ?R"
    using T [THEN conjunct2, THEN conjunct2, THEN conjunct2, THEN conjunct2, THEN conjunct2,
             THEN conjunct2, THEN conjunct1] st ready
    by simp
  have s4: "bucket_group (limiter (self (snd (the (send ?C example_world example_request ())))))
       ''example.com'' = Some [10, 20, 30, 50, 51]"
    unfolding s2 by (rule fill)
  have nF: "bucket_name ?C (self ?F) example_request = Inr ''example.com''"
    by (rule example_world_with_rates_name)
  have acqF: "ratelimit ?C ''example.com'' (max_delay (self ?F)) (limiter (self ?F))
                = Some (Inr (), ?f1)"
    by (simp add: answering_def example_world_with_rates_def float_acquire)
  have trF: "super_send ?C (sent ?F) example_request () = Inr ?R"
    by (simp add: answering_def)
  have stF: "429 \<in> set (limit_statuses (self ?F))"
    by (simp add: example_world_with_rates_def example_world_def)
  have wF: "records ?F = []"
    by (simp add: example_world_with_rates_def example_world_def)
  have rF: "rates (limiter (self ?F)) = [\<lparr>limit = PyFloat 5, interval = PyInt 60\<rparr>]"
    by (simp add: example_world_with_rates_def)
  have float: "bucket_group ?f1 ''example.com'' \<noteq> None
            \<and> (\<exists>rate rest x. rates ?f1 = rate # rest \<and> limit rate = PyFloat x)"
    by simp
  note TF = send_response_fills_on_limit_status [OF nF acqF trF]
  have f1: "fst (the (send ?C ?F example_request ())) = Inl TypeError"
    using TF [THEN conjunct2, THEN conjunct2, THEN conjunct2, THEN conjunct2, THEN conjunct2,
              THEN conjunct2, THEN conjunct2, THEN conjunct1] stF float
    by simp
  have f2: "records (snd (the (send ?C ?F example_request ()))) = [fill_message example_request]"
    using TF [THEN conjunct2, THEN conjunct1] stF wF by simp
  have d: "limit_statuses_arg shared_args = limit_statuses_arg default_args"
    by (simp add: shared_args_def)
  have s5: "limit_statuses (example_instance ''0f8fad5b'') = [429]"
    using T [THEN conjunct2, THEN conjunct2, THEN conjunct2, THEN conjunct2, THEN conjunct2,
             THEN conjunct2, THEN conjunct2, THEN conjunct2, THEN conjunct1, rule_format,
             OF init_shared_args [of "''0f8fad5b''"]]
      T [THEN conjunct2, THEN conjunct2, THEN conjunct2, THEN conjunct2, THEN conjunct2,
         THEN conjunct2, THEN conjunct2, THEN conjunct2, THEN conjunct2] d
    by simp
  have nD: "bucket_name ?D (self example_world) example_request = Inr ''example.com''"
    by (rule example_name)
  have acqD: "ratelimit ?D ''example.com'' (max_delay (self example_world))
               (limiter (self example_world)) = Some (Inr (), ?l1)"
    by (simp add: answering_def example_world_def example_acquire)
  have trD: "super_send ?D (sent example_world) example_request ()
               = Inr \<lparr>status_code = 200, content = ''''\<rparr>"
    by (simp add: answering_def)
  have stD: "200 \<notin> set (limit_statuses (self example_world))"
    by (simp add: example_world_def)
  note TD = send_response_fills_on_limit_status [OF nD acqD trD]
  have g0: "the (send ?D example_world example_request ())
              = (Inr \<lparr>status_code = 200, content = ''''\<rparr>, ?w2)"
    using TD [THEN conjunct2, THEN conjunct2, THEN conjunct2, THEN conjunct1] stD by simp
  have g1: "fst (the (send ?D example_world example_request ()))
              = Inr \<lparr>status_code = 200, content = ''''\<rparr>"
    unfolding g0 by simp
  have g2: "records (snd (the (send ?D example_world example_request ()))) = []"
    unfolding g0 using w by simp
  have g3: "bucket_group (limiter (self (snd (the (send ?D example_world example_request ())))))
              ''example.com'' = Some [10, 20, 30, 50]"
    unfolding g0 by simp
  from n acq tr st s3 s1 s4 rF f1 f2 stD g1 g2 g3 init_shared_args [of "''0f8fad5b''"] d s5
  show ?thesis by blast
qed

text \<open>
  C9. When the acquisition succeeds and the transport raises an error, \<open>send\<close> raises
  that same error; the filler does not run: the log is unchanged and the limiter is as
  the acquisition left it.
\<close>

theorem send_transport_error_propagates:
  assumes n: "bucket_name C (self w) request = Inr name"
    and acq: "ratelimit C name (max_delay (self w)) (limiter (self w)) = Some (Inr (), l1)"
    and tr: "super_send C (sent w) request kwargs = Inl e"
  shows "send C w request kwargs =
           Some (Inl e, w\<lparr>self := (self w)\<lparr>limiter := l1\<rparr>, sent := sent w @ [request]\<rparr>)
       \<and> fst (the (send C w request kwargs)) = Inl e
       \<and> records (snd (the (send C w request kwargs))) = records w
       \<and> limiter (self (snd (the (send C w request kwargs)))) = l1"
  by (simp add: send_transport_fails [OF n acq tr])

theorem send_transport_error_propagates_witness:
  "bucket_name (failing (TransportError ''reset'')) (self example_world) example_request
       = Inr ''example.com''
   \<and> ratelimit (failing (TransportError ''reset'')) ''example.com''
       (max_delay (self example_world)) (limiter (self example_world)) =
     Some (Inr (),
           example_limiter\<lparr>bucket_group := [''example.com'' \<mapsto> [10, 20, 30, 50]], ticks := 1\<rparr>)
   \<and> super_send (failing (TransportError ''reset'')) (sent example_world) example_request ()
       = Inl (TransportError ''reset'')
   \<and> fst (the (send (failing (TransportError ''reset'')) example_world example_request ()))
       = Inl (TransportError ''reset'')
   \<and> records (snd (the (send (failing (TransportError ''reset'')) example_world
         example_request ()))) = []
   \<and> bucket_group (limiter (self (snd (the (send (failing (TransportError ''reset''))
         example_world example_request ()))))) ''example.com'' = Some [10, 20, 30, 50]"
proof -
  let ?F = "failing (TransportError ''reset'')"
  have n: "bucket_name ?F (self example_world) example_request = Inr ''example.com''"
    by (rule example_name_failing)
  have acq: "ratelimit ?F ''example.com'' (max_delay (self example_world))
       (limiter (self example_world)) =
     Some (Inr (),
           example_limiter\<lparr>bucket_group := [''example.com'' \<mapsto> [10, 20, 30, 50]], ticks := 1\<rparr>)"
    by (simp add: failing_def example_world_def example_acquire)
  have tr: "super_send ?F (sent example_world) example_request () = Inl (TransportError ''reset'')"
    by (simp add: failing_def)
  have w: "records example_world = []"
    by (simp add: example_world_def)
  note T = send_transport_error_propagates [OF n acq tr]
  have 1: "fst (the (send ?F example_world example_request ())) = Inl (TransportError ''reset'')"
    using T [THEN conjunct2, THEN conjunct1] .
  have 2: "records (snd (the (send ?F example_world example_request ()))) = []"
    using T [THEN conjunct2, THEN conjunct2, THEN conjunct1] w by simp
  have 3: "bucket_group (limiter (self (snd (the (send ?F example_world example_request ())))))
             ''example.com'' = Some [10, 20, 30, 50]"
    using T [THEN conjunct2, THEN conjunct2, THEN conjunct2] by simp
  from n acq tr 1 2 3 show ?thesis by blast
qed

section \<open>The first rate\<close>

text \<open>
  C5. The filler reads the first entry of the rate list, whatever the order of the list:
  what it returns or raises and the bucket group it leaves are those it gives when the
  rate list holds that first entry alone. When the bucket of the request exists and the
  first entry's limit is an int, it returns normally and the request's bucket gains the
  deficit computed from the first entry's limit and interval. When the list is ordered
  ascending by interval, the first entry's interval is the smallest of the list. Nothing
  checks the order.
\<close>

theorem fill_bucket_uses_first_rate:
  fixes C :: "'k collaborators"
  assumes r: "rates (limiter (self w)) = rate # rest"
  defines "w1 \<equiv> w\<lparr>self := (self w)\<lparr>limiter := (limiter (self w))\<lparr>rates := [rate]\<rparr>\<rparr>\<rparr>"
    and "now \<equiv> time_function (limiter (self w)) (ticks (limiter (self w)))"
  shows "fst (fill_bucket C w request) = fst (fill_bucket C w1 request)
       \<and> bucket_group (limiter (self (snd (fill_bucket C w request)))) =
           bucket_group (limiter (self (snd (fill_bucket C w1 request))))
       \<and> (\<forall>name b L. bucket_name C (self w) request = Inr name
            \<and> bucket_group (limiter (self w)) name = Some b \<and> limit rate = PyInt L \<longrightarrow>
            fst (fill_bucket C w request) = Inr ()
            \<and> bucket_group (limiter (self (snd (fill_bucket C w request)))) name =
                Some (b @ replicate
                  (nat (L - int (inspect_expired_items b (time_minus C now (interval rate)))))
                  now))
       \<and> (sorted (map (number_value \<circ> interval) (rate # rest)) \<longrightarrow>
            number_value (interval rate)
              = Min (set (map (number_value \<circ> interval) (rate # rest))))"
proof -
  have r1: "rates (limiter (self w1)) = rate # []"
    by (simp add: w1_def)
  have same: "fst (fill_bucket C w request) = fst (fill_bucket C w1 request)
       \<and> bucket_group (limiter (self (snd (fill_bucket C w request)))) =
           bucket_group (limiter (self (snd (fill_bucket C w1 request))))"
  proof (cases "bucket_name C (self w) request")
    case (Inl e)
    then have "bucket_name C (self w1) request = Inl e"
      by (simp add: w1_def)
    then show ?thesis
      by (simp add: fill_bucket_no_name Inl) (simp add: w1_def)
  next
    case (Inr name)
    then have n1: "bucket_name C (self w1) request = Inr name"
      by (simp add: w1_def)
    show ?thesis
    proof (cases "bucket_group (limiter (self w)) name")
      case None
      then have "bucket_group (limiter (self w1)) name = None"
        by (simp add: w1_def)
      then show ?thesis
        by (simp add: fill_bucket_no_bucket [OF Inr None] fill_bucket_no_bucket [OF n1])
          (simp add: w1_def)
    next
      case (Some b)
      then have b1: "bucket_group (limiter (self w1)) name = Some b"
        by (simp add: w1_def)
      show ?thesis
      proof (cases "limit rate")
        case (PyInt L)
        show ?thesis
          unfolding fill_bucket_int [OF Inr Some r PyInt] fill_bucket_int [OF n1 b1 r1 PyInt]
          by (simp add: w1_def)
      next
        case (PyFloat x)
        show ?thesis
          unfolding fill_bucket_float [OF Inr Some r PyFloat]
            fill_bucket_float [OF n1 b1 r1 PyFloat]
          by (simp add: w1_def)
      qed
    qed
  qed
  have deficit: "fst (fill_bucket C w request) = Inr ()
            \<and> bucket_group (limiter (self (snd (fill_bucket C w request)))) name =
                Some (b @ replicate
                  (nat (L - int (inspect_expired_items b (time_minus C now (interval rate)))))
                  now)"
    if "bucket_name C (self w) request = Inr name"
      "bucket_group (limiter (self w)) name = Some b" "limit rate = PyInt L" for name b L
    unfolding fill_bucket_int [OF that(1) that(2) r that(3)] now_def by simp
  have smallest: "sorted (map (number_value \<circ> interval) (rate # rest)) \<longrightarrow>
            number_value (interval rate)
              = Min (set (map (number_value \<circ> interval) (rate # rest)))"
  proof
    assume "sorted (map (number_value \<circ> interval) (rate # rest))"
    then have "\<forall>x \<in> set (map (number_value \<circ> interval) (rate # rest)).
                 number_value (interval rate) \<le> x"
      by auto
    then show "number_value (interval rate)
                 = Min (set (map (number_value \<circ> interval) (rate # rest)))"
      by (intro Min_eqI [symmetric]) auto
  qed
  from same deficit smallest show ?thesis by blast
qed

theorem fill_bucket_uses_first_rate_witness:
  "sorted (map (number_value \<circ> interval)
     [\<lparr>limit = PyInt 5, interval = PyInt 60\<rparr>, \<lparr>limit = PyInt 100, interval = PyInt 3600\<rparr>])
   \<and> number_value (interval \<lparr>limit = PyInt 5, interval = PyInt 60\<rparr>)
       = Min (set (map (number_value \<circ> interval)
           [\<lparr>limit = PyInt 5, interval = PyInt 60\<rparr>, \<lparr>limit = PyInt 100, interval = PyInt 3600\<rparr>]))
   \<and> bucket_group (limiter (self (snd (fill_bucket (answering 429)
         (example_world_with_rates
            [\<lparr>limit = PyInt 5, interval = PyInt 60\<rparr>, \<lparr>limit = PyInt 100, interval = PyInt 3600\<rparr>])
         example_request)))) ''example.com'' = Some [10, 20, 30, 50, 50]
   \<and> \<not> sorted (map (number_value \<circ> interval)
         [\<lparr>limit = PyInt 4, interval = PyInt 3600\<rparr>, \<lparr>limit = PyInt 2, interval = PyInt 60\<rparr>])
   \<and> fst (fill_bucket (answering 429)
         (example_world_with_rates
            [\<lparr>limit = PyInt 4, interval = PyInt 3600\<rparr>, \<lparr>limit = PyInt 2, interval = PyInt 60\<rparr>])
         example_request) = Inr ()
   \<and> bucket_group (limiter (self (snd (fill_bucket (answering 429)
         (example_world_with_rates
            [\<lparr>limit = PyInt 4, interval = PyInt 3600\<rparr>, \<lparr>limit = PyInt 2, interval = PyInt 60\<rparr>])
         example_request)))) ''example.com'' = Some [10, 20, 30, 50]"
proof -
  let ?C = "answering 429"
  let ?rA = "\<lparr>limit = PyInt 5, interval = PyInt 60\<rparr>"
  let ?rA' = "\<lparr>limit = PyInt 100, interval = PyInt 3600\<rparr>"
  let ?rB = "\<lparr>limit = PyInt 4, interval = PyInt 3600\<rparr>"
  let ?rB' = "\<lparr>limit = PyInt 2, interval = PyInt 60\<rparr>"
  let ?A = "example_world_with_rates [?rA, ?rA']"
  let ?B = "example_world_with_rates [?rB, ?rB']"
  have nA: "bucket_name ?C (self ?A) example_request = Inr ''example.com''"
    and nB: "bucket_name ?C (self ?B) example_request = Inr ''example.com''"
    by (rule example_world_with_rates_name)+
  have bA: "bucket_group (limiter (self ?A)) ''example.com'' = Some [10, 20, 30]"
    and bB: "bucket_group (limiter (self ?B)) ''example.com'' = Some [10, 20, 30]"
    by (simp_all add: example_world_with_rates_def example_limiter_def)
  have rA: "rates (limiter (self ?A)) = ?rA # [?rA']"
    and rB: "rates (limiter (self ?B)) = ?rB # [?rB']"
    by (simp_all add: example_world_with_rates_def)
  have tA: "time_function (limiter (self ?A)) (ticks (limiter (self ?A))) = 50"
    and tB: "time_function (limiter (self ?B)) (ticks (limiter (self ?B))) = 50"
    by (simp_all add: example_world_with_rates_def example_limiter_def)
  have c: "inspect_expired_items [10, 20, 30] (time_minus ?C 50 (PyInt 60)) = 3"
    "inspect_expired_items [10, 20, 30] (time_minus ?C 50 (PyInt 3600)) = 3"
    by (simp_all add: inspect_expired_items_def answering_def exact_minus_def)
  note A = fill_bucket_uses_first_rate [OF rA, of ?C example_request]
  note B = fill_bucket_uses_first_rate [OF rB, of ?C example_request]
  have 1: "sorted (map (number_value \<circ> interval) [?rA, ?rA'])"
    by simp
  have 2: "number_value (interval ?rA) = Min (set (map (number_value \<circ> interval) [?rA, ?rA']))"
    using A [THEN conjunct2, THEN conjunct2, THEN conjunct2] 1 by blast
  have 3: "bucket_group (limiter (self (snd (fill_bucket ?C ?A example_request))))
         ''example.com'' = Some [10, 20, 30, 50, 50]"
    using A [THEN conjunct2, THEN conjunct2, THEN conjunct1, rule_format,
        of "''example.com''" "[10, 20, 30]" 5] nA bA c
    unfolding tA by (simp add: replicate_numeral)
  have 4: "\<not> sorted (map (number_value \<circ> interval) [?rB, ?rB'])"
    by simp
  have 5: "fst (fill_bucket ?C ?B example_request) = Inr ()"
    using B [THEN conjunct2, THEN conjunct2, THEN conjunct1, rule_format,
        of "''example.com''" "[10, 20, 30]" 4] nB bB
    by simp
  have 6: "bucket_group (limiter (self (snd (fill_bucket ?C ?B example_request))))
         ''example.com'' = Some [10, 20, 30, 50]"
    using B [THEN conjunct2, THEN conjunct2, THEN conjunct1, rule_format,
        of "''example.com''" "[10, 20, 30]" 4] nB bB c
    unfolding tB by simp
  from 1 2 3 4 5 6 show ?thesis by blast
qed

section \<open>Bucket names\<close>



lemma colon_not_scheme_char: "CHR '':'' \<notin> scheme_chars"
  by (simp add: scheme_chars_def)

lemma split_scheme_colon:
  assumes "scheme \<noteq> []" "hd scheme \<in> letters" "set scheme \<subseteq> scheme_chars"
  shows "split_scheme (scheme @ CHR '':'' # u) = u"
proof -
  have "\<And>c. c \<in> set scheme \<Longrightarrow> c \<noteq> CHR '':''"
    using assms(3) colon_not_scheme_char by auto
  then have "takeWhile (\<lambda>c. c \<noteq> CHR '':'') (scheme @ CHR '':'' # u)
               = scheme @ takeWhile (\<lambda>c. c \<noteq> CHR '':'') (CHR '':'' # u)"
    by (rule takeWhile_append2)
  then have tw: "takeWhile (\<lambda>c. c \<noteq> CHR '':'') (scheme @ CHR '':'' # u) = scheme"
    by simp
  show ?thesis
    unfolding split_scheme_def tw Let_def using assms by simp
qed

lemma takeWhile_location:
  assumes l: "\<And>c. c \<in> set location \<Longrightarrow> P c"
    and r: "rest = [] \<or> \<not> P (hd rest)"
  shows "takeWhile P (location @ rest) = location"
    and "dropWhile P (location @ rest) = rest"
proof -
  have "takeWhile P rest = []" "dropWhile P rest = rest"
    using r by (cases rest; simp)+
  then show "takeWhile P (location @ rest) = location"
    and "dropWhile P (location @ rest) = rest"
    using l by (simp_all add: takeWhile_append2 dropWhile_append2)
qed

text \<open>
  The network location \<open>urlparse\<close> finds in a URL of the form
  \<open>scheme://location rest\<close>: the whole text between \<open>//\<close> and the next \<open>/\<close>, \<open>?\<close> or
  \<open>#\<close>.
\<close>

lemma urlparse_netloc_location:
  assumes s: "scheme \<noteq> []" "hd scheme \<in> letters" "set scheme \<subseteq> scheme_chars"
    and l: "set location \<inter> set ''/?#[]'' = {}"
    and r: "rest = [] \<or> hd rest \<in> set ''/?#''"
  shows "urlparse_netloc (scheme @ ''://'' @ location @ rest)
           = Inr \<lparr>netloc = location, remainder = rest\<rparr>"
proof -
  define P where "P = (\<lambda>c :: char. c \<notin> set ''/?#'')"
  have u: "scheme @ ''://'' @ location @ rest = scheme @ CHR '':'' # (''//'' @ location @ rest)"
    by simp
  have split: "split_scheme (scheme @ ''://'' @ location @ rest) = ''//'' @ location @ rest"
    unfolding u by (rule split_scheme_colon [OF s])
  have loc: "\<And>c. c \<in> set location \<Longrightarrow> P c"
    using l unfolding P_def by auto
  have rest: "rest = [] \<or> \<not> P (hd rest)"
    using r unfolding P_def by simp
  note tl = takeWhile_location [of location P rest, OF loc rest]
  have br: "CHR ''['' \<notin> set location" "CHR '']'' \<notin> set location"
    using l by auto
  have t2: "take 2 (''//'' @ location @ rest) = ''//''"
    "drop 2 (''//'' @ location @ rest) = location @ rest"
    by simp_all
  show ?thesis
    unfolding urlparse_netloc_def split Let_def t2 P_def [symmetric]
    using br by (simp add: tl)
qed

lemma names_of_alice_and_bob:
  "bucket_name (answering st) (self example_world) request_of_alice
     = Inr ''alice@example.org:8080''"
  "bucket_name (answering st) (self example_world) request_of_bob
     = Inr ''bob@example.org:8080''"
  by (simp_all add: bucket_name_def answering_def example_world_def urlparse_netloc_def
      split_scheme_def request_of_alice_def request_of_bob_def letters_def scheme_chars_def
      Let_def)

text \<open>
  C6, as stated, fails. The network location that \<open>urlparse\<close> returns is not the host
  and the port alone: it begins with the user information, up to \<open>@\<close>, when the URL holds
  one. Two requests to the same host and port, of two users, get two different names.
\<close>

theorem per_host_bucket_name_is_host_port_counterexample:
  "per_host (self example_world)
   \<and> url request_of_alice = ''https://alice@example.org:8080/a''
   \<and> url request_of_bob = ''https://bob@example.org:8080/a''
   \<and> bucket_name (answering 200) (self example_world) request_of_alice
       = Inr ''alice@example.org:8080''
   \<and> bucket_name (answering 200) (self example_world) request_of_bob
       = Inr ''bob@example.org:8080''
   \<and> host_port ''alice@example.org:8080'' = ''example.org:8080''
   \<and> host_port ''bob@example.org:8080'' = ''example.org:8080''
   \<and> bucket_name (answering 200) (self example_world) request_of_alice
       \<noteq> bucket_name (answering 200) (self example_world) request_of_bob"
  unfolding names_of_alice_and_bob
  by (simp add: example_world_def request_of_alice_def request_of_bob_def host_port_def)

text \<open>
  C6, amended. With \<open>per_host\<close> set, the bucket name of a request is the \<open>netloc\<close>
  component that \<open>urlparse\<close> returns for the request's URL, and the error that
  \<open>urlparse\<close> raises when it raises one. Two requests whose URLs are parsed get the same
  name exactly when their \<open>netloc\<close> components are equal. For the \<open>urlparse\<close> of the
  standard library and a URL of the form \<open>scheme://location rest\<close>, where the location
  holds none of \<open>/\<close>, \<open>?\<close>, \<open>#\<close> and no bracket and the rest is empty or begins with one
  of \<open>/\<close>, \<open>?\<close>, \<open>#\<close>, the name is the whole location, user information included.
\<close>

theorem per_host_bucket_name_is_netloc:
  assumes "per_host s"
  shows "(\<forall>p. urlparse C (url r1) = Inr p \<longrightarrow> bucket_name C s r1 = Inr (netloc p))
       \<and> (\<forall>e. urlparse C (url r1) = Inl e \<longrightarrow> bucket_name C s r1 = Inl e)
       \<and> (\<forall>p1 p2. urlparse C (url r1) = Inr p1 \<and> urlparse C (url r2) = Inr p2 \<longrightarrow>
            (bucket_name C s r1 = bucket_name C s r2) = (netloc p1 = netloc p2))
       \<and> (\<forall>scheme location rest.
            urlparse C = urlparse_netloc \<and> url r1 = scheme @ ''://'' @ location @ rest
            \<and> scheme \<noteq> [] \<and> hd scheme \<in> letters \<and> set scheme \<subseteq> scheme_chars
            \<and> set location \<inter> set ''/?#[]'' = {} \<and> (rest = [] \<or> hd rest \<in> set ''/?#'') \<longrightarrow>
            bucket_name C s r1 = Inr location)"
proof -
  have 1: "\<forall>p. urlparse C (url r1) = Inr p \<longrightarrow> bucket_name C s r1 = Inr (netloc p)"
    using assms by (simp add: bucket_name_def)
  have 2: "\<forall>e. urlparse C (url r1) = Inl e \<longrightarrow> bucket_name C s r1 = Inl e"
    using assms by (simp add: bucket_name_def)
  have 3: "\<forall>p1 p2. urlparse C (url r1) = Inr p1 \<and> urlparse C (url r2) = Inr p2 \<longrightarrow>
            (bucket_name C s r1 = bucket_name C s r2) = (netloc p1 = netloc p2)"
    using assms by (simp add: bucket_name_def)
  have 4: "bucket_name C s r1 = Inr location"
    if "urlparse C = urlparse_netloc" "url r1 = scheme @ ''://'' @ location @ rest"
      "scheme \<noteq> []" "hd scheme \<in> letters" "set scheme \<subseteq> scheme_chars"
      "set location \<inter> set ''/?#[]'' = {}" "rest = [] \<or> hd rest \<in> set ''/?#''"
    for scheme location rest
    using assms urlparse_netloc_location [OF that(3-7)] that(1,2)
    by (simp add: bucket_name_def)
  from 1 2 3 4 show ?thesis by blast
qed

theorem per_host_bucket_name_is_netloc_witness:
  "per_host (self example_world)
   \<and> urlparse (answering 200) = urlparse_netloc
   \<and> url request_of_alice = ''https'' @ ''://'' @ ''alice@example.org:8080'' @ ''/a''
   \<and> bucket_name (answering 200) (self example_world) request_of_alice
       = Inr ''alice@example.org:8080''
   \<and> urlparse (answering 200) (url example_request)
       = Inr \<lparr>netloc = ''example.com'', remainder = ''/a''\<rparr>
   \<and> urlparse (answering 200) (url other_path)
       = Inr \<lparr>netloc = ''example.com'', remainder = ''/b?x=1''\<rparr>
   \<and> urlparse (answering 200) (url other_host)
       = Inr \<lparr>netloc = ''example.org:8080'', remainder = ''/a''\<rparr>
   \<and> urlparse (answering 200) (url open_bracket) = Inl ValueError
   \<and> bucket_name (answering 200) (self example_world) example_request = Inr ''example.com''
   \<and> bucket_name (answering 200) (self example_world) other_host = Inr ''example.org:8080''
   \<and> bucket_name (answering 200) (self example_world) open_bracket = Inl ValueError
   \<and> bucket_name (answering 200) (self example_world) example_request
       = bucket_name (answering 200) (self example_world) other_path
   \<and> bucket_name (answering 200) (self example_world) example_request
       \<noteq> bucket_name (answering 200) (self example_world) other_host"
proof -
  let ?C = "answering 200"
  let ?s = "self example_world"
  have p: "per_host ?s"
    by (simp add: example_world_def)
  have u: "urlparse ?C = urlparse_netloc"
    by (simp add: answering_def)
  have a: "url request_of_alice = ''https'' @ ''://'' @ ''alice@example.org:8080'' @ ''/a''"
    by (simp add: request_of_alice_def)
  have parts: "''https'' \<noteq> []" "hd ''https'' \<in> letters" "set ''https'' \<subseteq> scheme_chars"
    "set ''alice@example.org:8080'' \<inter> set ''/?#[]'' = {}"
    "''/a'' = [] \<or> hd ''/a'' \<in> set ''/?#''"
    by (simp_all add: letters_def scheme_chars_def)
  have n: "urlparse ?C (url example_request) = Inr \<lparr>netloc = ''example.com'', remainder = ''/a''\<rparr>"
    "urlparse ?C (url other_path) = Inr \<lparr>netloc = ''example.com'', remainder = ''/b?x=1''\<rparr>"
    "urlparse ?C (url other_host) = Inr \<lparr>netloc = ''example.org:8080'', remainder = ''/a''\<rparr>"
    "urlparse ?C (url open_bracket) = Inl ValueError"
    unfolding u
    by (simp_all add: urlparse_netloc_def split_scheme_def example_request_def other_path_def
        other_host_def open_bracket_def letters_def scheme_chars_def Let_def)
  note T = per_host_bucket_name_is_netloc [OF p, of ?C]
  have 1: "bucket_name ?C ?s request_of_alice = Inr ''alice@example.org:8080''"
    using T [of request_of_alice, THEN conjunct2, THEN conjunct2, THEN conjunct2, rule_format,
        of "''https''" "''alice@example.org:8080''" "''/a''"] u a parts
    by blast
  have 2: "bucket_name ?C ?s example_request = Inr ''example.com''"
    using T [of example_request, THEN conjunct1] n(1) by simp
  have 3: "bucket_name ?C ?s other_host = Inr ''example.org:8080''"
    using T [of other_host, THEN conjunct1] n(3) by simp
  have 4: "bucket_name ?C ?s open_bracket = Inl ValueError"
    using T [of open_bracket, THEN conjunct2, THEN conjunct1] n(4) by simp
  have 5: "bucket_name ?C ?s example_request = bucket_name ?C ?s other_path"
    using T [of example_request other_path, THEN conjunct2, THEN conjunct2, THEN conjunct1]
      n(1,2) by simp
  have 6: "bucket_name ?C ?s example_request \<noteq> bucket_name ?C ?s other_host"
    using T [of example_request other_host, THEN conjunct2, THEN conjunct2, THEN conjunct1]
      n(1,3) by simp
  from p u a 1 n 2 3 4 5 6 show ?thesis by blast
qed





section \<open>Repeated fills\<close>















end
